theory Spec2Isabelle
  imports Main "HOL-Library.AList"
begin

section \<open>The journey runner of the synthetics agent\<close>

text \<open>
  A shallow embedding of the class \<open>Runner\<close> (the run, journey and step executors with
  their hook phases and their event stream). The runner is sequential \<open>async\<close> code: each
  \<open>await\<close> is a point where a collaborator (the browser driver, the plugin manager, a user
  callback) either resolves or rejects. The embedding makes three things explicit:

  \<^item> a thrown or rejected value is a \<open>jsval\<close>, and a call that can throw returns
    \<open>jsval + 'a\<close> (\<open>Inl\<close> the thrown value);
  \<^item> everything the runner does to the outside world (events emitted, calls on the
    collaborators, user callbacks invoked) is appended to a list of \<open>Effect\<close>s, in
    program order;
  \<^item> the fields of the runner instance (\<open>active\<close>, \<open>currentJourney\<close>, \<open>journeys\<close>,
    \<open>hooks\<close>) are a record that is passed in and returned.

  The collaborators are not part of the runner. What each of them answers is data of the
  run: a step carries what its callback, the page and the plugin manager do while the step
  runs, a journey carries what the gatherer answers when its context is created, a driver
  carries what its disposal answers. Every awaited promise is taken to settle, the wait for
  standard input of \<open>pauseOnError\<close> included. The debug
  \<open>log\<close>, the monotonic clock and the wall clock (the \<open>start\<close>, \<open>end\<close> and \<open>timestamp\<close>
  fields of the payloads) are left out; listeners of the event emitter are taken not to throw.
\<close>

subsection \<open>Thrown values\<close>

text \<open>
  \<open>catch (e)\<close> receives whatever was thrown, and \<open>if (data.error)\<close> tests it for
  truthiness, so the kinds of JavaScript value are kept apart. \<open>JError m\<close> is an \<open>Error\<close>
  object with message \<open>m\<close>; numbers are integers here.
\<close>

datatype jsval =
    JUndefined
  | JNull
  | JBoolean bool
  | JNumber int
  | JString string
  | JError string

fun toBoolean :: "jsval \<Rightarrow> bool" where
  "toBoolean JUndefined = False"
| "toBoolean JNull = False"
| "toBoolean (JBoolean b) = b"
| "toBoolean (JNumber n) = (n \<noteq> 0)"
| "toBoolean (JString s) = (s \<noteq> [])"
| "toBoolean (JError m) = True"

text \<open>The truthiness of an optional property: an absent property reads \<open>undefined\<close>.\<close>

fun truthy :: "jsval option \<Rightarrow> bool" where
  "truthy None = False"
| "truthy (Some v) = toBoolean v"

subsection \<open>Results, steps, journeys\<close>

datatype StatusValue = succeeded | failed | skipped

type_synonym Metrics = string
type_synonym RunParamaters = "(string \<times> string) list"

text \<open>\<open>StepResult\<close> has the two fields of \<open>JourneyResult\<close> and three more.\<close>

record JourneyResult =
  status :: StatusValue
  error :: "jsval option"

record StepResult = JourneyResult +
  url :: "string option"
  metrics :: "Metrics option"
  screenshot :: "string option"

record Request =
  isNavigationRequest :: bool
  requestUrl :: string

text \<open>
  Modelled from the spec: the classes \<open>Step\<close> and \<open>Journey\<close> of the DSL, which the runner
  imports. A step has a name and a callback; a journey has a name, a callback that
  registers its steps, two hook lists and the steps. The field \<open>steps\<close> is the step list as
  it stands once the journey's callback has run (the runner reads it only then).

  A hook or callback is given by what invoking it does: \<open>None\<close> when it completes,
  \<open>Some e\<close> when it throws or rejects with \<open>e\<close>.
\<close>

record VoidCallback =
  hookId :: nat
  hookThrows :: "jsval option"

record Step =
  stepName :: string
  stepCallback :: "jsval option"
  \<comment> \<open>the requests the page issues while the callback runs, in order\<close>
  requests :: "Request list"
  \<comment> \<open>\<open>pluginManager.onStep(step)\<close>\<close>
  onStep :: "jsval option"
  \<comment> \<open>\<open>pluginManager.get(PerformanceManager).getMetrics()\<close>\<close>
  getMetrics :: "jsval + Metrics"
  \<comment> \<open>\<open>driver.page.url()\<close> when the step finishes\<close>
  pageUrl :: string
  \<comment> \<open>\<open>driver.page.waitForLoadState('load')\<close>\<close>
  waitForLoadState :: "jsval option"
  \<comment> \<open>\<open>driver.page.screenshot(...)\<close>, already in base64\<close>
  pageScreenshot :: "jsval + string"

record PluginOutput =
  filmstrips :: "string list"
  networkinfo :: "string list"
  browserconsole :: "string list"

record PluginManager =
  \<comment> \<open>\<open>pluginManager.output()\<close>\<close>
  pmOutput :: "jsval + PluginOutput"

record Driver =
  driverId :: nat
  \<comment> \<open>\<open>Gatherer.dispose(driver)\<close>\<close>
  dispose :: "jsval option"

record Gatherer =
  setupDriver :: "jsval + Driver"
  beginRecording :: "jsval + PluginManager"

record Journey =
  journeyName :: string
  journeyCallback :: "jsval option"
  hooksBefore :: "VoidCallback list"
  hooksAfter :: "VoidCallback list"
  steps :: "Step list"
  \<comment> \<open>what the gatherer answers when this journey's context is created\<close>
  gatherer :: Gatherer

record BaseContext =
  params :: "RunParamaters option"

record JourneyContext = BaseContext +
  driver :: Driver
  pluginManager :: PluginManager

datatype ReporterOption = ReporterFunction string | ReporterName string | ReporterDefault

record RunOptions =
  optParams :: "RunParamaters option"
  optMetrics :: bool
  optScreenshots :: bool
  pauseOnError :: bool
  dryRun :: bool
  optJourneyName :: "string option"
  reporter :: ReporterOption
  outfd :: "nat option"

type_synonym RunResult = "(string \<times> JourneyResult) list"

record SuiteHooks =
  beforeAll :: "VoidCallback list"
  afterAll :: "VoidCallback list"

subsection \<open>Events and effects\<close>

record JourneyEndPayload =
  endStatus :: StatusValue
  endError :: "jsval option"
  endParams :: "RunParamaters option"
  endFilmstrips :: "string list"
  endNetworkinfo :: "string list"
  endBrowserconsole :: "string list option"

datatype Event =
    Start nat
  | JourneyRegister Journey
  | JourneyStart Journey "RunParamaters option"
  | JourneyEnd Journey JourneyEndPayload
  | StepStart Journey Step
  | StepEnd Journey Step StepResult
  | End

datatype Call =
    NewReporter ReporterOption "nat option"
  | SetupDriver
  | BeginRecording Driver
  | Dispose Driver
  | Output
  | JourneyCallback Journey
  | Hook VoidCallback
  | OnStep Step
  | StepCallback Step
  | GetMetrics
  | WaitForLoadState
  | Screenshot
  | StdinData

datatype Effect = Emit Event | Call Call

record Runner =
  active :: bool
  currentJourney :: "Journey option"
  journeys :: "Journey list"
  hooks :: SuiteHooks

subsection \<open>The hook executor\<close>

text \<open>
  Modelled from the spec: the helper \<open>runParallel\<close>, which the runner imports. It starts
  every callback of the list, waits for all of them, and fails with the first failure in
  list order when there is one.
\<close>

fun firstRejection :: "VoidCallback list \<Rightarrow> jsval option" where
  "firstRejection [] = None"
| "firstRejection (cb # cbs) =
     (case hookThrows cb of Some e \<Rightarrow> Some e | None \<Rightarrow> firstRejection cbs)"

definition runParallel :: "VoidCallback list \<Rightarrow> (jsval + unit) \<times> Effect list" where
  "runParallel cbs =
     ((case firstRejection cbs of Some e \<Rightarrow> Inl e | None \<Rightarrow> Inr ()),
      map (\<lambda>cb. Call (Hook cb)) cbs)"

definition runBeforeAllHook :: "Runner \<Rightarrow> (jsval + unit) \<times> Effect list" where
  "runBeforeAllHook r = runParallel (beforeAll (hooks r))"

definition runAfterAllHook :: "Runner \<Rightarrow> (jsval + unit) \<times> Effect list" where
  "runAfterAllHook r = runParallel (afterAll (hooks r))"

definition runBeforeHook :: "Journey \<Rightarrow> (jsval + unit) \<times> Effect list" where
  "runBeforeHook journey = runParallel (hooksBefore journey)"

definition runAfterHook :: "Journey \<Rightarrow> (jsval + unit) \<times> Effect list" where
  "runAfterHook journey = runParallel (hooksAfter journey)"

subsection \<open>Context creation\<close>

definition createContext :: "RunOptions \<Rightarrow> Gatherer \<Rightarrow> (jsval + JourneyContext) \<times> Effect list" where
  "createContext options g =
     (case setupDriver g of
        Inl e \<Rightarrow> (Inl e, [Call SetupDriver])
      | Inr d \<Rightarrow>
          (case beginRecording g of
             Inl e \<Rightarrow> (Inl e, [Call SetupDriver, Call (BeginRecording d)])
           | Inr pm \<Rightarrow>
               (Inr \<lparr>params = optParams options, driver = d, pluginManager = pm\<rparr>,
                [Call SetupDriver, Call (BeginRecording d)])))"
subsection \<open>The step executor\<close>

text \<open>
  The listener \<open>captureUrl\<close> of \<open>runStep\<close>: it writes the URL when none is there yet and
  the request is a navigation request. \<open>!data.url\<close> holds for an absent and for an empty
  URL.
\<close>

definition captureUrl :: "Request \<Rightarrow> StepResult \<Rightarrow> StepResult" where
  "captureUrl req data =
     (if (url data = None \<or> url data = Some []) \<and> isNavigationRequest req
      then data\<lparr>url := Some (requestUrl req)\<rparr> else data)"

text \<open>
  The page delivers each request to the listeners attached at that moment. \<open>captureUrl\<close>
  ends with \<open>driver.page.off('request', captureUrl)\<close>: after the first request it has seen
  it is no longer attached, whatever the request was.
\<close>

fun deliver :: "bool \<Rightarrow> Request list \<Rightarrow> StepResult \<Rightarrow> StepResult" where
  "deliver attached [] data = data"
| "deliver attached (req # reqs) data =
     (if attached then deliver False reqs (captureUrl req data)
      else deliver False reqs data)"

text \<open>
  The \<open>try\<close> block of \<open>runStep\<close>. It returns what was thrown, if anything, together with
  \<open>data\<close> as the block left it: the listener writes to \<open>data\<close> before a later statement
  throws.
\<close>

definition stepTry ::
  "Step \<Rightarrow> RunOptions \<Rightarrow> StepResult \<Rightarrow> (jsval option \<times> StepResult) \<times> Effect list" where
  "stepTry step options data =
     (case onStep step of
        Some e \<Rightarrow> ((Some e, data), [Call (OnStep step)])
      | None \<Rightarrow>
          (let data1 = deliver True (requests step) data in
           case stepCallback step of
             Some e \<Rightarrow> ((Some e, data1), [Call (OnStep step), Call (StepCallback step)])
           | None \<Rightarrow>
               (if optMetrics options then
                  (case getMetrics step of
                     Inl e \<Rightarrow>
                       ((Some e, data1),
                        [Call (OnStep step), Call (StepCallback step), Call GetMetrics])
                   | Inr m \<Rightarrow>
                       ((None, data1\<lparr>metrics := Some m\<rparr>),
                        [Call (OnStep step), Call (StepCallback step), Call GetMetrics]))
                else ((None, data1), [Call (OnStep step), Call (StepCallback step)]))))"

text \<open>The \<open>finally\<close> block of \<open>runStep\<close>; what it throws leaves \<open>runStep\<close>.\<close>

definition stepFinally ::
  "Step \<Rightarrow> RunOptions \<Rightarrow> StepResult \<Rightarrow> (jsval + StepResult) \<times> Effect list" where
  "stepFinally step options data =
     (let data1 = (case url data of None \<Rightarrow> data\<lparr>url := Some (pageUrl step)\<rparr> | Some u \<Rightarrow> data) in
      if optScreenshots options then
        (case waitForLoadState step of
           Some e \<Rightarrow> (Inl e, [Call WaitForLoadState])
         | None \<Rightarrow>
             (case pageScreenshot step of
                Inl e \<Rightarrow> (Inl e, [Call WaitForLoadState, Call Screenshot])
              | Inr s \<Rightarrow>
                  (Inr (data1\<lparr>screenshot := Some s\<rparr>),
                   [Call WaitForLoadState, Call Screenshot])))
      else (Inr data1, []))"

definition newStepResult :: StepResult where
  "newStepResult =
     \<lparr>status = succeeded, error = None, url = None, metrics = None, screenshot = None\<rparr>"

definition runStep ::
  "Step \<Rightarrow> JourneyContext \<Rightarrow> RunOptions \<Rightarrow> (jsval + StepResult) \<times> Effect list" where
  "runStep step context options =
     (case stepTry step options newStepResult of
        ((thrown, data), fx1) \<Rightarrow>
          (let data1 = (case thrown of
                          Some e \<Rightarrow> data\<lparr>status := failed, error := Some e\<rparr>
                        | None \<Rightarrow> data)
           in case stepFinally step options data1 of
                (r, fx2) \<Rightarrow> (r, fx1 @ fx2)))"

subsection \<open>The step loop\<close>

text \<open>
  One turn of the \<open>for\<close> loop of \<open>runSteps\<close>: it returns the step's result and the new
  value of \<open>skipStep\<close>, or what \<open>runStep\<close> threw.
\<close>

definition stepTurn ::
  "Journey \<Rightarrow> JourneyContext \<Rightarrow> RunOptions \<Rightarrow> bool \<Rightarrow> Step
     \<Rightarrow> (jsval + StepResult \<times> bool) \<times> Effect list" where
  "stepTurn journey context options skipStep step =
     (if skipStep then
        (let data = newStepResult\<lparr>status := skipped\<rparr> in
         (Inr (data, skipStep),
          [Emit (StepStart journey step), Emit (StepEnd journey step data)]
          @ (if pauseOnError options \<and> truthy (error data) then [Call StdinData] else [])))
      else
        (case runStep step context options of
           (Inl e, fx) \<Rightarrow> (Inl e, Emit (StepStart journey step) # fx)
         | (Inr data, fx) \<Rightarrow>
             (Inr (data, truthy (error data)),
              Emit (StepStart journey step) # fx @ [Emit (StepEnd journey step data)]
              @ (if pauseOnError options \<and> truthy (error data) then [Call StdinData] else []))))"

fun stepLoop ::
  "Journey \<Rightarrow> JourneyContext \<Rightarrow> RunOptions \<Rightarrow> bool \<Rightarrow> Step list \<Rightarrow> StepResult list
     \<Rightarrow> (jsval + StepResult list) \<times> Effect list" where
  "stepLoop journey context options skipStep [] results = (Inr results, [])"
| "stepLoop journey context options skipStep (step # rest) results =
     (case stepTurn journey context options skipStep step of
        (Inl e, fx) \<Rightarrow> (Inl e, fx)
      | (Inr (data, skipStep1), fx) \<Rightarrow>
          (case stepLoop journey context options skipStep1 rest (results @ [data]) of
             (r, fx1) \<Rightarrow> (r, fx @ fx1)))"

definition runSteps ::
  "Journey \<Rightarrow> JourneyContext \<Rightarrow> RunOptions \<Rightarrow> (jsval + StepResult list) \<times> Effect list" where
  "runSteps journey context options =
     stepLoop journey context options False (steps journey) []"

subsection \<open>The journey executor\<close>

definition registerJourney ::
  "Journey \<Rightarrow> JourneyContext \<Rightarrow> Runner \<Rightarrow> (jsval + unit) \<times> Runner \<times> Effect list" where
  "registerJourney journey context r =
     ((case journeyCallback journey of Some e \<Rightarrow> Inl e | None \<Rightarrow> Inr ()),
      r\<lparr>currentJourney := Some journey\<rparr>,
      [Emit (JourneyStart journey (params context)), Call (JourneyCallback journey)])"

definition endJourney ::
  "Journey \<Rightarrow> JourneyContext \<Rightarrow> JourneyResult \<Rightarrow> (jsval + unit) \<times> Effect list" where
  "endJourney journey context result =
     (case pmOutput (pluginManager context) of
        Inl e \<Rightarrow> (Inl e, [Call Output])
      | Inr out \<Rightarrow>
          (Inr (),
           [Call Output,
            Emit (JourneyEnd journey
              \<lparr>endStatus = status result, endError = error result,
               endParams = params context,
               endFilmstrips = filmstrips out, endNetworkinfo = networkinfo out,
               endBrowserconsole =
                 (if status result = failed then Some (browserconsole out) else None)\<rparr>)]))"

text \<open>The loop of \<open>runJourney\<close> over the step results: the last failed step wins.\<close>

fun markFailed :: "StepResult list \<Rightarrow> JourneyResult \<Rightarrow> JourneyResult" where
  "markFailed [] result = result"
| "markFailed (stepResult # rest) result =
     markFailed rest
       (if status stepResult = failed
        then result\<lparr>status := status stepResult, error := error stepResult\<rparr>
        else result)"

text \<open>
  The \<open>try\<close> block of \<open>runJourney\<close>: \<open>Inl\<close> what it threw, \<open>Inr\<close> the value of \<open>result\<close>
  at its end.
\<close>

definition journeyTry ::
  "Journey \<Rightarrow> JourneyContext \<Rightarrow> RunOptions \<Rightarrow> Runner
     \<Rightarrow> (jsval + JourneyResult) \<times> Runner \<times> Effect list" where
  "journeyTry journey context options r =
     (case registerJourney journey context r of
        (Inl e, r1, fx1) \<Rightarrow> (Inl e, r1, fx1)
      | (Inr u, r1, fx1) \<Rightarrow>
          (case runBeforeHook journey of
             (Inl e, fx2) \<Rightarrow> (Inl e, r1, fx1 @ fx2)
           | (Inr u, fx2) \<Rightarrow>
               (case runSteps journey context options of
                  (Inl e, fx3) \<Rightarrow> (Inl e, r1, fx1 @ fx2 @ fx3)
                | (Inr stepResults, fx3) \<Rightarrow>
                    (let result = markFailed stepResults \<lparr>status = succeeded, error = None\<rparr> in
                     case runAfterHook journey of
                       (Inl e, fx4) \<Rightarrow> (Inl e, r1, fx1 @ fx2 @ fx3 @ fx4)
                     | (Inr u, fx4) \<Rightarrow> (Inr result, r1, fx1 @ fx2 @ fx3 @ fx4)))))"

text \<open>The \<open>try\<close> block with its \<open>catch\<close>: the value of \<open>result\<close> when \<open>finally\<close> starts.\<close>

definition journeyTryCatch ::
  "Journey \<Rightarrow> JourneyContext \<Rightarrow> RunOptions \<Rightarrow> Runner
     \<Rightarrow> JourneyResult \<times> Runner \<times> Effect list" where
  "journeyTryCatch journey context options r =
     (case journeyTry journey context options r of
        (Inl e, r1, fx) \<Rightarrow> (\<lparr>status = failed, error = Some e\<rparr>, r1, fx)
      | (Inr result, r1, fx) \<Rightarrow> (result, r1, fx))"

text \<open>The \<open>finally\<close> block: the journey's end, then the driver's disposal.\<close>

definition journeyFinally ::
  "Journey \<Rightarrow> JourneyContext \<Rightarrow> JourneyResult \<Rightarrow> (jsval + unit) \<times> Effect list" where
  "journeyFinally journey context result =
     (case endJourney journey context result of
        (Inl e, fx1) \<Rightarrow> (Inl e, fx1)
      | (Inr u, fx1) \<Rightarrow>
          (case dispose (driver context) of
             Some e \<Rightarrow> (Inl e, fx1 @ [Call (Dispose (driver context))])
           | None \<Rightarrow> (Inr (), fx1 @ [Call (Dispose (driver context))])))"

definition runJourney ::
  "Journey \<Rightarrow> RunOptions \<Rightarrow> Runner \<Rightarrow> (jsval + JourneyResult) \<times> Runner \<times> Effect list" where
  "runJourney journey options r =
     (case createContext options (gatherer journey) of
        (Inl e, fx0) \<Rightarrow> (Inl e, r, fx0)
      | (Inr context, fx0) \<Rightarrow>
          (case journeyTryCatch journey context options r of
             (result, r1, fx1) \<Rightarrow>
               (case journeyFinally journey context result of
                  (Inl e, fx2) \<Rightarrow> (Inl e, r1, fx0 @ fx1 @ fx2)
                | (Inr u, fx2) \<Rightarrow> (Inr result, r1, fx0 @ fx1 @ fx2))))"

subsection \<open>The run\<close>

definition reset :: "Runner \<Rightarrow> Runner" where
  "reset r = r\<lparr>currentJourney := None, journeys := [], active := False\<rparr>"

text \<open>
  The \<open>for\<close> loop of \<open>run\<close> over the registered journeys. \<open>journeyName &&\<close> is false for
  an absent and for an empty name.
\<close>

fun journeyLoop ::
  "RunOptions \<Rightarrow> Journey list \<Rightarrow> RunResult \<Rightarrow> Runner
     \<Rightarrow> (jsval + RunResult) \<times> Runner \<times> Effect list" where
  "journeyLoop options [] result r = (Inr result, r, [])"
| "journeyLoop options (journey # rest) result r =
     (if dryRun options then
        (case journeyLoop options rest result r of
           (res, r1, fx) \<Rightarrow> (res, r1, Emit (JourneyRegister journey) # fx))
      else if (case optJourneyName options of
                 None \<Rightarrow> False
               | Some n \<Rightarrow> n \<noteq> [] \<and> journeyName journey \<noteq> n)
      then journeyLoop options rest result r
      else
        (case runJourney journey options r of
           (Inl e, r1, fx) \<Rightarrow> (Inl e, r1, fx)
         | (Inr journeyResult, r1, fx) \<Rightarrow>
             (case journeyLoop options rest
                     (AList.update (journeyName journey) journeyResult result) r1 of
                (res, r2, fx1) \<Rightarrow> (res, r2, fx @ fx1))))"

definition run :: "RunOptions \<Rightarrow> Runner \<Rightarrow> (jsval + RunResult) \<times> Runner \<times> Effect list" where
  "run options r =
     (if active r then (Inr [], r, [])
      else
        (let r1 = r\<lparr>active := True\<rparr>;
             fx0 = [Call (NewReporter (reporter options) (outfd options)),
                    Emit (Start (length (journeys r1)))]
         in case runBeforeAllHook r1 of
              (Inl e, fx1) \<Rightarrow> (Inl e, r1, fx0 @ fx1)
            | (Inr u, fx1) \<Rightarrow>
                (case journeyLoop options (journeys r1) [] r1 of
                   (Inl e, r2, fx2) \<Rightarrow> (Inl e, r2, fx0 @ fx1 @ fx2)
                 | (Inr result, r2, fx2) \<Rightarrow>
                     (case runAfterAllHook r2 of
                        (Inl e, fx3) \<Rightarrow> (Inl e, r2, fx0 @ fx1 @ fx2 @ fx3)
                      | (Inr u, fx3) \<Rightarrow>
                          (Inr result, reset r2, fx0 @ fx1 @ fx2 @ fx3 @ [Emit End])))))"

subsection \<open>Reading a list of effects\<close>

text \<open>The events emitted, in order.\<close>

fun events :: "Effect list \<Rightarrow> Event list" where
  "events [] = []"
| "events (Emit ev # fx) = ev # events fx"
| "events (Call c # fx) = events fx"

text \<open>
  The steps the step executor was invoked on, in order: \<open>runStep\<close> calls
  \<open>pluginManager.onStep(step)\<close> once, first of all, and nothing else calls it.
\<close>

fun executed :: "Effect list \<Rightarrow> Step list" where
  "executed [] = []"
| "executed (Call (OnStep s) # fx) = s # executed fx"
| "executed (e # fx) = executed fx"

text \<open>The drivers \<open>Gatherer.dispose\<close> was called on, in order.\<close>

fun disposals :: "Effect list \<Rightarrow> Driver list" where
  "disposals [] = []"
| "disposals (Call (Dispose d) # fx) = d # disposals fx"
| "disposals (e # fx) = disposals fx"

text \<open>The hook callbacks invoked, in order.\<close>

fun hooksRun :: "Effect list \<Rightarrow> VoidCallback list" where
  "hooksRun [] = []"
| "hooksRun (Call (Hook cb) # fx) = cb # hooksRun fx"
| "hooksRun (e # fx) = hooksRun fx"

text \<open>The name each event is emitted under.\<close>

fun eventName :: "Event \<Rightarrow> string" where
  "eventName (Start n) = ''start''"
| "eventName (JourneyRegister j) = ''journey:register''"
| "eventName (JourneyStart j p) = ''journey:start''"
| "eventName (JourneyEnd j p) = ''journey:end''"
| "eventName (StepStart j s) = ''step:start''"
| "eventName (StepEnd j s d) = ''step:end''"
| "eventName End = ''end''"

text \<open>The step results of a step loop that returned (none when it threw).\<close>

definition resultsOf :: "(jsval + StepResult list) \<times> Effect list \<Rightarrow> StepResult list" where
  "resultsOf r = (case fst r of Inr srs \<Rightarrow> srs | Inl e \<Rightarrow> [])"

text \<open>
  The journeys the loop of \<open>run\<close> executes: it is not a dry run, and the journey passes the
  name filter.
\<close>

definition selected :: "RunOptions \<Rightarrow> Journey \<Rightarrow> bool" where
  "selected options journey =
     (\<not> dryRun options \<and>
      (case optJourneyName options of
         None \<Rightarrow> True
       | Some n \<Rightarrow> n = [] \<or> journeyName journey = n))"

text \<open>The events of one step, and the result of a step that is skipped.\<close>

definition stepEvents :: "Journey \<Rightarrow> Step \<Rightarrow> StepResult \<Rightarrow> Event list" where
  "stepEvents journey step data = [StepStart journey step, StepEnd journey step data]"

definition skippedResult :: StepResult where
  "skippedResult = newStepResult\<lparr>status := skipped\<rparr>"

subsection \<open>Sample data\<close>

text \<open>
  The scenario of the specification: a journey with the steps A (succeeds), B (throws
  \<open>Error("x")\<close>) and C (succeeds), and variations of it.
\<close>

definition okStep :: "string \<Rightarrow> Step" where
  "okStep n =
     \<lparr>stepName = n, stepCallback = None, requests = [], onStep = None,
      getMetrics = Inr ''{}'', pageUrl = ''about:blank'', waitForLoadState = None,
      pageScreenshot = Inr ''/9j/''\<rparr>"

definition throwingStep :: "string \<Rightarrow> jsval \<Rightarrow> Step" where
  "throwingStep n e = (okStep n)\<lparr>stepCallback := Some e\<rparr>"

definition okDriver :: Driver where
  "okDriver = \<lparr>driverId = 0, dispose = None\<rparr>"

definition okPlugins :: PluginManager where
  "okPlugins =
     \<lparr>pmOutput = Inr \<lparr>filmstrips = [], networkinfo = [], browserconsole = []\<rparr>\<rparr>"

definition okGatherer :: Gatherer where
  "okGatherer = \<lparr>setupDriver = Inr okDriver, beginRecording = Inr okPlugins\<rparr>"

definition okContext :: JourneyContext where
  "okContext = \<lparr>params = None, driver = okDriver, pluginManager = okPlugins\<rparr>"

definition plainJourney :: "string \<Rightarrow> Step list \<Rightarrow> Journey" where
  "plainJourney n ss =
     \<lparr>journeyName = n, journeyCallback = None, hooksBefore = [], hooksAfter = [],
      steps = ss, gatherer = okGatherer\<rparr>"

definition journeyABC :: Journey where
  "journeyABC =
     plainJourney ''J'' [okStep ''A'', throwingStep ''B'' (JError ''x''), okStep ''C'']"

definition throwingHook :: "jsval \<Rightarrow> VoidCallback" where
  "throwingHook e = \<lparr>hookId = 0, hookThrows = Some e\<rparr>"

definition plainOptions :: RunOptions where
  "plainOptions =
     \<lparr>optParams = None, optMetrics = False, optScreenshots = False, pauseOnError = False,
      dryRun = False, optJourneyName = None, reporter = ReporterDefault, outfd = None\<rparr>"

definition idleRunner :: "Journey list \<Rightarrow> Runner" where
  "idleRunner js =
     \<lparr>active = False, currentJourney = None, journeys = js,
      hooks = \<lparr>beforeAll = [], afterAll = []\<rparr>\<rparr>"

definition journeyAfterThrows :: Journey where
  "journeyAfterThrows = journeyABC\<lparr>hooksAfter := [throwingHook (JError ''after'')]\<rparr>"

definition journeyBeforeThrows :: Journey where
  "journeyBeforeThrows = journeyABC\<lparr>hooksBefore := [throwingHook (JError ''before'')]\<rparr>"

definition journeyCallbackThrows :: Journey where
  "journeyCallbackThrows = journeyABC\<lparr>journeyCallback := Some (JError ''register'')\<rparr>"

definition journeyFalsy :: Journey where
  "journeyFalsy = plainJourney ''J'' [throwingStep ''A'' JUndefined, okStep ''B'']"

definition journeyOutputThrows :: Journey where
  "journeyOutputThrows =
     journeyABC\<lparr>gatherer :=
       \<lparr>setupDriver = Inr okDriver,
        beginRecording = Inr \<lparr>pmOutput = Inl (JError ''output'')\<rparr>\<rparr>\<rparr>"

definition journeyDisposeThrows :: Journey where
  "journeyDisposeThrows =
     journeyABC\<lparr>gatherer :=
       \<lparr>setupDriver = Inr (okDriver\<lparr>dispose := Some (JError ''dispose'')\<rparr>),
        beginRecording = Inr okPlugins\<rparr>\<rparr>"

definition journeyRecordingThrows :: Journey where
  "journeyRecordingThrows =
     journeyABC\<lparr>gatherer :=
       \<lparr>setupDriver = Inr okDriver, beginRecording = Inl (JError ''recording'')\<rparr>\<rparr>"

definition journeySetupThrows :: Journey where
  "journeySetupThrows =
     journeyABC\<lparr>gatherer :=
       \<lparr>setupDriver = Inl (JError ''setup''), beginRecording = Inr okPlugins\<rparr>\<rparr>"

definition screenshotOptions :: RunOptions where
  "screenshotOptions = plainOptions\<lparr>optScreenshots := True\<rparr>"

definition screenshotThrows :: "string \<Rightarrow> Step" where
  "screenshotThrows n = (okStep n)\<lparr>pageScreenshot := Inl (JError ''screenshot'')\<rparr>"

definition journeyScreenshotThrows :: Journey where
  "journeyScreenshotThrows = plainJourney ''J'' [screenshotThrows ''A'', okStep ''B'']"

definition dryOptions :: RunOptions where
  "dryOptions = plainOptions\<lparr>dryRun := True\<rparr>"

text \<open>
  A step that clicks a link: the page first sends a tracking request, then navigates. The
  navigation fails, so the page is still on \<open>about:blank\<close> when the step ends.
\<close>

definition clickStep :: Step where
  "clickStep =
     (throwingStep ''click'' (JError ''net::ERR_CONNECTION_REFUSED''))
       \<lparr>requests :=
          [\<lparr>isNavigationRequest = False, requestUrl = ''https://example.com/track''\<rparr>,
           \<lparr>isNavigationRequest = True, requestUrl = ''https://example.com/next''\<rparr>]\<rparr>"

definition quietHook :: "nat \<Rightarrow> VoidCallback" where
  "quietHook n = \<lparr>hookId = n, hookThrows = None\<rparr>"

definition journeyHooked :: Journey where
  "journeyHooked = journeyABC\<lparr>hooksBefore := [quietHook 1], hooksAfter := [quietHook 2]\<rparr>"

definition beforeAllThrows :: "Journey list \<Rightarrow> Runner" where
  "beforeAllThrows js =
     (idleRunner js)\<lparr>hooks := \<lparr>beforeAll = [throwingHook (JError ''beforeAll'')], afterAll = []\<rparr>\<rparr>"

definition afterAllThrows :: "Journey list \<Rightarrow> Runner" where
  "afterAllThrows js =
     (idleRunner js)\<lparr>hooks := \<lparr>beforeAll = [], afterAll = [throwingHook (JError ''afterAll'')]\<rparr>\<rparr>"

section \<open>Properties\<close>

subsection \<open>Effects of the parts\<close>

lemma events_append: "events (a @ b) = events a @ events b"
  by (induction a rule: events.induct) auto
lemma executed_append: "executed (a @ b) = executed a @ executed b"
  by (induction a rule: executed.induct) auto
lemma disposals_append: "disposals (a @ b) = disposals a @ disposals b"
  by (induction a rule: disposals.induct) auto
lemma hooksRun_append: "hooksRun (a @ b) = hooksRun a @ hooksRun b"
  by (induction a rule: hooksRun.induct) auto

lemma runParallel_fx: "snd (runParallel cbs) = map (\<lambda>cb. Call (Hook cb)) cbs"
  by (simp add: runParallel_def)
lemma events_hooks: "events (map (\<lambda>cb. Call (Hook cb)) cbs) = []"
  by (induction cbs) auto
lemma executed_hooks: "executed (map (\<lambda>cb. Call (Hook cb)) cbs) = []"
  by (induction cbs) auto
lemma disposals_hooks: "disposals (map (\<lambda>cb. Call (Hook cb)) cbs) = []"
  by (induction cbs) auto
lemma hooksRun_hooks: "hooksRun (map (\<lambda>cb. Call (Hook cb)) cbs) = cbs"
  by (induction cbs) auto

lemma captureUrl_keeps: "status (captureUrl req d) = status d" "error (captureUrl req d) = error d"
  by (simp_all add: captureUrl_def)

lemma deliver_keeps: "status (deliver a reqs d) = status d \<and> error (deliver a reqs d) = error d"
  by (induction a reqs d rule: deliver.induct) (simp_all add: captureUrl_keeps)

lemma stepTry_keeps:
  "status (snd (fst (stepTry step options d))) = status d \<and>
   error (snd (fst (stepTry step options d))) = error d"
  by (simp add: stepTry_def Let_def deliver_keeps split: option.split sum.split)

lemma stepTry_fx:
  "executed (snd (stepTry step options d)) = [step] \<and>
   events (snd (stepTry step options d)) = [] \<and>
   disposals (snd (stepTry step options d)) = [] \<and>
   hooksRun (snd (stepTry step options d)) = []"
  by (simp add: stepTry_def Let_def split: option.split sum.split)

lemma stepFinally_keeps:
  "stepFinally step options d = (Inr d', fx) \<Longrightarrow> status d' = status d \<and> error d' = error d"
  by (auto simp: stepFinally_def Let_def split: option.splits sum.splits if_splits)

lemma stepFinally_fx:
  "executed (snd (stepFinally step options d)) = [] \<and>
   events (snd (stepFinally step options d)) = [] \<and>
   disposals (snd (stepFinally step options d)) = [] \<and>
   hooksRun (snd (stepFinally step options d)) = []"
  by (simp add: stepFinally_def Let_def split: option.split sum.split)

text \<open>\<open>runStep\<close> in terms of its two blocks.\<close>

lemma runStep_unfold:
  "runStep step context options =
     (fst (stepFinally step options
        (case fst (fst (stepTry step options newStepResult)) of
           Some e \<Rightarrow> (snd (fst (stepTry step options newStepResult)))\<lparr>status := failed, error := Some e\<rparr>
         | None \<Rightarrow> snd (fst (stepTry step options newStepResult)))),
      snd (stepTry step options newStepResult) @
      snd (stepFinally step options
        (case fst (fst (stepTry step options newStepResult)) of
           Some e \<Rightarrow> (snd (fst (stepTry step options newStepResult)))\<lparr>status := failed, error := Some e\<rparr>
         | None \<Rightarrow> snd (fst (stepTry step options newStepResult)))))"
  by (simp add: runStep_def Let_def case_prod_beta)

lemma runStep_fx:
  "executed (snd (runStep step context options)) = [step]"
  "events (snd (runStep step context options)) = []"
  "disposals (snd (runStep step context options)) = []"
  "hooksRun (snd (runStep step context options)) = []"
  by (simp_all add: runStep_unfold executed_append events_append disposals_append hooksRun_append
        stepTry_fx stepFinally_fx)


subsection \<open>The step loop\<close>

lemma stepTurn_skip:
  "stepTurn journey context options True step =
     (Inr (skippedResult, True), map Emit (stepEvents journey step skippedResult))"
  by (simp add: stepTurn_def skippedResult_def newStepResult_def stepEvents_def Let_def)

lemma stepTurn_run:
  "stepTurn journey context options False step =
     (case fst (runStep step context options) of
        Inl e \<Rightarrow> (Inl e, Emit (StepStart journey step) # snd (runStep step context options))
      | Inr data \<Rightarrow>
          (Inr (data, truthy (error data)),
           Emit (StepStart journey step) # snd (runStep step context options)
           @ [Emit (StepEnd journey step data)]
           @ (if pauseOnError options \<and> truthy (error data) then [Call StdinData] else [])))"
  by (simp add: stepTurn_def case_prod_beta split: sum.split)

lemma stepTurn_fx:
  "disposals (snd (stepTurn journey context options skipStep step)) = []"
  "hooksRun (snd (stepTurn journey context options skipStep step)) = []"
  "executed (snd (stepTurn journey context options skipStep step)) = (if skipStep then [] else [step])"
  by (cases skipStep; simp add: stepTurn_skip stepTurn_run stepEvents_def runStep_fx
        disposals_append hooksRun_append executed_append split: sum.split)+

lemma stepTurn_events:
  "events (snd (stepTurn journey context options skipStep step)) =
     (case fst (stepTurn journey context options skipStep step) of
        Inl e \<Rightarrow> [StepStart journey step]
      | Inr (data, s) \<Rightarrow> stepEvents journey step data)"
  by (cases skipStep; simp add: stepTurn_skip stepTurn_run stepEvents_def runStep_fx
        events_append split: sum.split)

lemma stepLoop_unfold:
  "stepLoop journey context options skipStep (step # rest) results =
     (case fst (stepTurn journey context options skipStep step) of
        Inl e \<Rightarrow> (Inl e, snd (stepTurn journey context options skipStep step))
      | Inr (data, skipStep1) \<Rightarrow>
          (fst (stepLoop journey context options skipStep1 rest (results @ [data])),
           snd (stepTurn journey context options skipStep step)
           @ snd (stepLoop journey context options skipStep1 rest (results @ [data]))))"
  by (simp add: case_prod_beta split: sum.split prod.split)

lemma stepLoop_fx:
  "disposals (snd (stepLoop journey context options skipStep ss results)) = [] \<and>
   hooksRun (snd (stepLoop journey context options skipStep ss results)) = []"
proof (induction ss arbitrary: skipStep results)
  case Nil
  show ?case by simp
next
  case (Cons step rest)
  show ?case
    by (simp add: stepLoop_unfold stepTurn_fx Cons.IH disposals_append hooksRun_append
        split: sum.split prod.split del: stepLoop.simps)
qed


lemma stepLoop_events:
  "stepLoop journey context options skipStep ss results = (Inr srs, fx) \<Longrightarrow>
     \<exists>new. srs = results @ new \<and> length new = length ss \<and>
       events fx = concat (map2 (stepEvents journey) ss new)"
proof (induction ss arbitrary: skipStep results fx)
  case Nil
  then show ?case by simp
next
  case (Cons step rest)
  let ?t = "stepTurn journey context options skipStep step"
  from Cons.prems obtain data skip1 where t: "fst ?t = Inr (data, skip1)"
    by (auto simp: stepLoop_unfold simp del: stepLoop.simps split: sum.splits)
  let ?l = "stepLoop journey context options skip1 rest (results @ [data])"
  from Cons.prems t have l: "?l = (Inr srs, snd ?l)" and fx: "fx = snd ?t @ snd ?l"
    by (auto simp: stepLoop_unfold prod_eq_iff simp del: stepLoop.simps)
  from Cons.IH[OF l] obtain new where new: "srs = (results @ [data]) @ new"
    "length new = length rest" "events (snd ?l) = concat (map2 (stepEvents journey) rest new)"
    by blast
  have "events (snd ?t) = stepEvents journey step data"
    using t by (simp add: stepTurn_events)
  with new fx have "srs = results @ (data # new) \<and> length (data # new) = length (step # rest) \<and>
       events fx = concat (map2 (stepEvents journey) (step # rest) (data # new))"
    by (simp add: events_append)
  then show ?case by blast
qed

subsection \<open>The journey executor, unfolded\<close>



lemma createContext_fx:
  "events (snd (createContext options g)) = [] \<and>
   disposals (snd (createContext options g)) = [] \<and>
   executed (snd (createContext options g)) = [] \<and>
   hooksRun (snd (createContext options g)) = []"
  by (simp add: createContext_def split: sum.split)

lemma createContext_params:
  "createContext options g = (Inr context, fx) \<Longrightarrow> params context = optParams options"
  by (auto simp: createContext_def split: sum.splits)

lemma journeyTry_unfold:
  "journeyTry journey context options r =
     (case journeyCallback journey of
        Some e \<Rightarrow>
          (Inl e, r\<lparr>currentJourney := Some journey\<rparr>,
           [Emit (JourneyStart journey (params context)), Call (JourneyCallback journey)])
      | None \<Rightarrow>
          (case firstRejection (hooksBefore journey) of
             Some e \<Rightarrow>
               (Inl e, r\<lparr>currentJourney := Some journey\<rparr>,
                [Emit (JourneyStart journey (params context)), Call (JourneyCallback journey)]
                @ map (\<lambda>cb. Call (Hook cb)) (hooksBefore journey))
           | None \<Rightarrow>
               (case fst (runSteps journey context options) of
                  Inl e \<Rightarrow>
                    (Inl e, r\<lparr>currentJourney := Some journey\<rparr>,
                     [Emit (JourneyStart journey (params context)), Call (JourneyCallback journey)]
                     @ map (\<lambda>cb. Call (Hook cb)) (hooksBefore journey)
                     @ snd (runSteps journey context options))
                | Inr stepResults \<Rightarrow>
                    ((case firstRejection (hooksAfter journey) of
                        Some e \<Rightarrow> Inl e
                      | None \<Rightarrow> Inr (markFailed stepResults \<lparr>status = succeeded, error = None\<rparr>)),
                     r\<lparr>currentJourney := Some journey\<rparr>,
                     [Emit (JourneyStart journey (params context)), Call (JourneyCallback journey)]
                     @ map (\<lambda>cb. Call (Hook cb)) (hooksBefore journey)
                     @ snd (runSteps journey context options)
                     @ map (\<lambda>cb. Call (Hook cb)) (hooksAfter journey)))))"
  by (simp add: journeyTry_def registerJourney_def runBeforeHook_def runAfterHook_def
      runParallel_def Let_def case_prod_beta split: option.split sum.split)

lemma runSteps_fx:
  "disposals (snd (runSteps journey context options)) = []"
  "hooksRun (snd (runSteps journey context options)) = []"
  by (simp_all add: runSteps_def stepLoop_fx)

lemma journeyTry_runner:
  "fst (snd (journeyTry journey context options r)) = r\<lparr>currentJourney := Some journey\<rparr>"
  by (simp add: journeyTry_unfold split: option.split sum.split)

lemma journeyTry_disposals:
  "disposals (snd (snd (journeyTry journey context options r))) = []"
  by (simp add: journeyTry_unfold disposals_append disposals_hooks runSteps_fx
      split: option.split sum.split)

lemma journeyTryCatch_unfold:
  "journeyTryCatch journey context options r =
     ((case fst (journeyTry journey context options r) of
         Inl e \<Rightarrow> \<lparr>status = failed, error = Some e\<rparr>
       | Inr result \<Rightarrow> result),
      r\<lparr>currentJourney := Some journey\<rparr>,
      snd (snd (journeyTry journey context options r)))"
  using journeyTry_runner[of journey "context" options r]
  by (auto simp: journeyTryCatch_def case_prod_beta prod_eq_iff split: sum.split)

lemma journeyFinally_unfold:
  "journeyFinally journey context result =
     (case pmOutput (pluginManager context) of
        Inl e \<Rightarrow> (Inl e, [Call Output])
      | Inr out \<Rightarrow>
          ((case dispose (driver context) of Some e \<Rightarrow> Inl e | None \<Rightarrow> Inr ()),
           [Call Output,
            Emit (JourneyEnd journey
              \<lparr>endStatus = status result, endError = error result,
               endParams = params context,
               endFilmstrips = filmstrips out, endNetworkinfo = networkinfo out,
               endBrowserconsole =
                 (if status result = failed then Some (browserconsole out) else None)\<rparr>),
            Call (Dispose (driver context))]))"
  by (simp add: journeyFinally_def endJourney_def split: option.split sum.split)

lemma runJourney_unfold:
  "createContext options (gatherer journey) = (Inr context, fx0) \<Longrightarrow>
   runJourney journey options r =
     ((case fst (journeyFinally journey context (fst (journeyTryCatch journey context options r))) of
         Inl e \<Rightarrow> Inl e
       | Inr u \<Rightarrow> Inr (fst (journeyTryCatch journey context options r))),
      r\<lparr>currentJourney := Some journey\<rparr>,
      fx0 @ snd (snd (journeyTry journey context options r))
      @ snd (journeyFinally journey context (fst (journeyTryCatch journey context options r))))"
  by (simp add: runJourney_def journeyTryCatch_unfold case_prod_beta split: sum.split)

lemma runJourney_no_context:
  "createContext options (gatherer journey) = (Inl e, fx0) \<Longrightarrow>
   runJourney journey options r = (Inl e, r, fx0)"
  by (simp add: runJourney_def)

lemma runJourney_disposals:
  assumes "createContext options (gatherer journey) = (Inr context, fx0)"
  shows "disposals (snd (snd (runJourney journey options r))) =
     (case pmOutput (pluginManager context) of Inl e \<Rightarrow> [] | Inr out \<Rightarrow> [driver context])"
  using createContext_fx[of options "gatherer journey"] assms
  by (simp add: runJourney_unfold[OF assms] journeyFinally_unfold disposals_append
      journeyTry_disposals split: sum.split)

lemma runJourney_runner:
  "fst (snd (runJourney journey options r)) = r \<or>
   fst (snd (runJourney journey options r)) = r\<lparr>currentJourney := Some journey\<rparr>"
proof (cases "fst (createContext options (gatherer journey))")
  case (Inl e)
  then have "createContext options (gatherer journey) = (Inl e, snd (createContext options (gatherer journey)))"
    by (simp add: prod_eq_iff)
  then show ?thesis by (simp add: runJourney_no_context)
next
  case (Inr c)
  then have "createContext options (gatherer journey) = (Inr c, snd (createContext options (gatherer journey)))"
    by (simp add: prod_eq_iff)
  then show ?thesis by (simp add: runJourney_unfold)
qed


subsection \<open>Runs up to the first failing step\<close>








text \<open>The definitions to unfold when a sample is evaluated.\<close>

lemmas sample_defs = journeyABC_def plainJourney_def plainOptions_def idleRunner_def okGatherer_def
  okDriver_def okPlugins_def okContext_def okStep_def throwingStep_def throwingHook_def

lemmas runner_defs = runJourney_def createContext_def journeyTryCatch_def journeyTry_def
  registerJourney_def runBeforeHook_def runAfterHook_def runParallel_def runSteps_def stepTurn_def
  runStep_def stepTry_def stepFinally_def newStepResult_def journeyFinally_def endJourney_def
  Let_def

subsection \<open>The reentrancy guard\<close>

text \<open>
  Claim C5. When \<open>run\<close> is called while the \<open>active\<close> flag of the runner is set, it returns
  the empty result mapping, has no effect at all (no event is emitted, no reporter is
  constructed, nothing is called), and returns the runner as it was: the \<open>active\<close> flag, the
  journey list, the current journey and the hooks are unchanged.
\<close>

theorem run_while_active:
  "active r \<Longrightarrow> run options r = (Inr [], r, [])"
  by (simp add: run_def)

theorem run_while_active_witness:
  "active ((idleRunner [journeyABC])\<lparr>active := True\<rparr>) \<and>
   run plainOptions ((idleRunner [journeyABC])\<lparr>active := True\<rparr>) =
     (Inr [], (idleRunner [journeyABC])\<lparr>active := True\<rparr>, [])"
  using run_while_active [of "(idleRunner [journeyABC])\<lparr>active := True\<rparr>" plainOptions]
  by simp


subsection \<open>The first failing step\<close>




subsection \<open>Disposal of the driver\<close>

text \<open>
  Claim C2, as amended. When the context of a journey was created and the plugin manager's
  output does not throw, \<open>Gatherer.dispose\<close> is called exactly once while the journey runs,
  on the driver of that context, whatever registration, the hooks, the steps and the
  disposal itself do.
\<close>

theorem dispose_once:
  assumes "createContext options (gatherer journey) = (Inr context, fx0)"
    and "pmOutput (pluginManager context) = Inr out"
  shows "disposals (snd (snd (runJourney journey options r))) = [driver context]"
  using assms(2) by (simp add: runJourney_disposals[OF assms(1)])

theorem dispose_once_witness:
  "createContext plainOptions (gatherer journeyAfterThrows) =
      (Inr okContext, [Call SetupDriver, Call (BeginRecording okDriver)])
   \<and> pmOutput (pluginManager okContext) =
       Inr \<lparr>filmstrips = [], networkinfo = [], browserconsole = []\<rparr>
   \<and> disposals (snd (snd (runJourney journeyAfterThrows plainOptions (idleRunner [])))) = [okDriver]"
proof -
  have c: "createContext plainOptions (gatherer journeyAfterThrows) =
      (Inr okContext, [Call SetupDriver, Call (BeginRecording okDriver)])"
    by (simp add: sample_defs journeyAfterThrows_def createContext_def)
  have p: "pmOutput (pluginManager okContext) =
       Inr \<lparr>filmstrips = [], networkinfo = [], browserconsole = []\<rparr>"
    by (simp add: sample_defs)
  from dispose_once [OF c p, of "idleRunner []"] c p show ?thesis
    by (simp add: okContext_def)
qed

text \<open>
  The claim as it was stated fails when the plugin manager's output throws (the journey's
  end is awaited before the disposal, in the same \<open>finally\<close> block) and when the recording
  cannot begin after the driver was set up (the context is created outside the \<open>try\<close>):
  the driver is never disposed.
\<close>

theorem dispose_once_counterexample:
  "fst (createContext plainOptions (gatherer journeyOutputThrows)) =
     Inr \<lparr>params = None, driver = okDriver, pluginManager = \<lparr>pmOutput = Inl (JError ''output'')\<rparr>\<rparr>
   \<and> disposals (snd (snd (runJourney journeyOutputThrows plainOptions (idleRunner [])))) = []
   \<and> setupDriver (gatherer journeyRecordingThrows) = Inr okDriver
   \<and> runJourney journeyRecordingThrows plainOptions (idleRunner []) =
       (Inl (JError ''recording''), idleRunner [], [Call SetupDriver, Call (BeginRecording okDriver)])"
  by (simp add: sample_defs journeyOutputThrows_def journeyRecordingThrows_def runner_defs)

subsection \<open>Failures of the journey's setup\<close>

lemma journeyLoop_selected:
  assumes "selected options journey"
  shows "journeyLoop options (journey # rest) result r =
     (case fst (runJourney journey options r) of
        Inl e \<Rightarrow> (Inl e, fst (snd (runJourney journey options r)), snd (snd (runJourney journey options r)))
      | Inr journeyResult \<Rightarrow>
          (fst (journeyLoop options rest (AList.update (journeyName journey) journeyResult result)
                  (fst (snd (runJourney journey options r)))),
           fst (snd (journeyLoop options rest (AList.update (journeyName journey) journeyResult result)
                  (fst (snd (runJourney journey options r))))),
           snd (snd (runJourney journey options r))
           @ snd (snd (journeyLoop options rest (AList.update (journeyName journey) journeyResult result)
                  (fst (snd (runJourney journey options r)))))))"
  using assms
  by (auto simp: selected_def case_prod_beta split: option.splits sum.splits)

lemma journeyTry_throws:
  assumes "journeyCallback journey = Some e
       \<or> (journeyCallback journey = None \<and> firstRejection (hooksBefore journey) = Some e)
       \<or> (journeyCallback journey = None \<and> firstRejection (hooksBefore journey) = None
           \<and> (\<exists>srs. fst (runSteps journey context options) = Inr srs)
           \<and> firstRejection (hooksAfter journey) = Some e)"
  shows "fst (journeyTry journey context options r) = Inl e"
  using assms by (auto simp: journeyTry_unfold)

text \<open>
  Claim C3, as amended. When the context of a journey was created, and the registration
  callback, a before hook or (after the step loop has returned) an after hook throws \<open>e\<close>,
  and neither the plugin manager's output nor the driver's disposal throws, then
  \<open>runJourney\<close> returns the status \<open>failed\<close> with the error \<open>e\<close>, and the loop of \<open>run\<close>
  records that result under the journey's name and goes on with the remaining journeys.
\<close>

theorem setup_failure_caught:
  assumes ctx: "createContext options (gatherer journey) = (Inr context, fx0)"
    and thrown: "journeyCallback journey = Some e
       \<or> (journeyCallback journey = None \<and> firstRejection (hooksBefore journey) = Some e)
       \<or> (journeyCallback journey = None \<and> firstRejection (hooksBefore journey) = None
           \<and> (\<exists>srs. fst (runSteps journey context options) = Inr srs)
           \<and> firstRejection (hooksAfter journey) = Some e)"
    and out: "pmOutput (pluginManager context) = Inr out"
    and disp: "dispose (driver context) = None"
    and sel: "selected options journey"
  shows "fst (runJourney journey options r) = Inr \<lparr>status = failed, error = Some e\<rparr>
     \<and> journeyLoop options (journey # rest) result r =
         (case journeyLoop options rest
                 (AList.update (journeyName journey) \<lparr>status = failed, error = Some e\<rparr> result)
                 (r\<lparr>currentJourney := Some journey\<rparr>) of
            (res, r2, fx) \<Rightarrow> (res, r2, snd (snd (runJourney journey options r)) @ fx))"
proof -
  have t: "fst (journeyTry journey context options r) = Inl e"
    using thrown by (rule journeyTry_throws)
  have a: "fst (runJourney journey options r) = Inr \<lparr>status = failed, error = Some e\<rparr>"
    using t out disp
    by (simp add: runJourney_unfold[OF ctx] journeyTryCatch_unfold journeyFinally_unfold)
  have b: "fst (snd (runJourney journey options r)) = r\<lparr>currentJourney := Some journey\<rparr>"
    by (simp add: runJourney_unfold[OF ctx])
  show ?thesis
    using a b by (simp add: journeyLoop_selected[OF sel] case_prod_beta del: journeyLoop.simps)
qed

theorem setup_failure_caught_witness:
  "createContext plainOptions (gatherer journeyBeforeThrows) =
      (Inr okContext, [Call SetupDriver, Call (BeginRecording okDriver)])
   \<and> journeyCallback journeyBeforeThrows = None
   \<and> firstRejection (hooksBefore journeyBeforeThrows) = Some (JError ''before'')
   \<and> selected plainOptions journeyBeforeThrows
   \<and> fst (runJourney journeyBeforeThrows plainOptions (idleRunner [journeyBeforeThrows, journeyABC])) =
       Inr \<lparr>status = failed, error = Some (JError ''before'')\<rparr>
   \<and> fst (run plainOptions (idleRunner [journeyBeforeThrows, journeyABC\<lparr>journeyName := ''K''\<rparr>])) =
       Inr [(''J'', \<lparr>status = failed, error = Some (JError ''before'')\<rparr>),
            (''K'', \<lparr>status = failed, error = Some (JError ''x'')\<rparr>)]"
  using setup_failure_caught [of plainOptions journeyBeforeThrows okContext
      "[Call SetupDriver, Call (BeginRecording okDriver)]" "JError ''before''"
      "\<lparr>filmstrips = [], networkinfo = [], browserconsole = []\<rparr>"
      "idleRunner [journeyBeforeThrows, journeyABC]" "[]" "[]"]
  by (simp add: sample_defs journeyBeforeThrows_def selected_def runner_defs run_def runBeforeAllHook_def
      runAfterAllHook_def reset_def)

text \<open>
  The claim as it was stated fails for the creation of the context, which is outside the
  \<open>try\<close> block: what it throws leaves \<open>runJourney\<close> and \<open>run\<close>, and the remaining
  journeys are not run. It also fails when the \<open>finally\<close> block throws after the \<open>catch\<close>
  (the plugin manager's output, or the driver's disposal).
\<close>

theorem setup_failure_counterexample:
  "runJourney journeySetupThrows plainOptions (idleRunner [journeySetupThrows, journeyABC]) =
     (Inl (JError ''setup''), idleRunner [journeySetupThrows, journeyABC], [Call SetupDriver])
   \<and> run plainOptions (idleRunner [journeySetupThrows, journeyABC]) =
     (Inl (JError ''setup''), (idleRunner [journeySetupThrows, journeyABC])\<lparr>active := True\<rparr>,
      [Call (NewReporter ReporterDefault None), Emit (Start 2), Call SetupDriver])
   \<and> fst (runJourney (journeyCallbackThrows\<lparr>gatherer := gatherer journeyOutputThrows\<rparr>)
            plainOptions (idleRunner [])) = Inl (JError ''output'')
   \<and> fst (runJourney (journeyCallbackThrows\<lparr>gatherer := gatherer journeyDisposeThrows\<rparr>)
            plainOptions (idleRunner [])) = Inl (JError ''dispose'')"
  by (simp add: sample_defs journeySetupThrows_def journeyCallbackThrows_def
      journeyOutputThrows_def journeyDisposeThrows_def runner_defs run_def runBeforeAllHook_def
      runAfterAllHook_def)

subsection \<open>Failures of a step\<close>

text \<open>
  Claim C4, as amended. When the finishing actions of \<open>runStep\<close> do not throw (no
  screenshot is requested, or the wait for the load state and the screenshot succeed),
  \<open>runStep\<close> returns a result: \<open>failed\<close> with the error attached when the plugin manager's
  step hook, the step callback or the retrieval of the metrics threw, \<open>succeeded\<close> without an
  error otherwise. What the wait for the load state or the screenshot throws is not caught:
  it leaves \<open>runStep\<close>.
\<close>

theorem runStep_catches:
  "((optScreenshots options \<longrightarrow>
       waitForLoadState step = None \<and> (\<exists>s. pageScreenshot step = Inr s)) \<longrightarrow>
    (\<exists>data. fst (runStep step context options) = Inr data \<and>
       (case onStep step of
          Some e \<Rightarrow> status data = failed \<and> error data = Some e
        | None \<Rightarrow>
            (case stepCallback step of
               Some e \<Rightarrow> status data = failed \<and> error data = Some e
             | None \<Rightarrow>
                 (if optMetrics options then
                    (case getMetrics step of
                       Inl e \<Rightarrow> status data = failed \<and> error data = Some e
                     | Inr m \<Rightarrow> status data = succeeded \<and> error data = None)
                  else status data = succeeded \<and> error data = None)))))
   \<and> (optScreenshots options \<and>
        (waitForLoadState step = Some e \<or>
         waitForLoadState step = None \<and> pageScreenshot step = Inl e) \<longrightarrow>
      fst (runStep step context options) = Inl e)"
proof (intro conjI impI)
  assume h: "optScreenshots options \<and>
        (waitForLoadState step = Some e \<or>
         waitForLoadState step = None \<and> pageScreenshot step = Inl e)"
  then show "fst (runStep step context options) = Inl e"
    by (auto simp: runStep_unfold stepFinally_def Let_def)
next
  assume h: "optScreenshots options \<longrightarrow>
       waitForLoadState step = None \<and> (\<exists>s. pageScreenshot step = Inr s)"
  let ?t = "stepTry step options newStepResult"
  let ?d = "case fst (fst ?t) of Some e \<Rightarrow> (snd (fst ?t))\<lparr>status := failed, error := Some e\<rparr>
            | None \<Rightarrow> snd (fst ?t)"
  from h obtain data where f: "fst (stepFinally step options ?d) = Inr data"
    by (cases "optScreenshots options") (auto simp: stepFinally_def Let_def)
  then have "stepFinally step options ?d = (Inr data, snd (stepFinally step options ?d))"
    by (simp add: prod_eq_iff)
  from stepFinally_keeps[OF this] have k: "status data = status ?d" "error data = error ?d"
    by simp_all
  have thrown: "fst (fst ?t) =
       (case onStep step of
          Some e \<Rightarrow> Some e
        | None \<Rightarrow>
            (case stepCallback step of
               Some e \<Rightarrow> Some e
             | None \<Rightarrow>
                 (if optMetrics options then
                    (case getMetrics step of Inl e \<Rightarrow> Some e | Inr m \<Rightarrow> None)
                  else None)))"
    by (simp add: stepTry_def Let_def split: option.split sum.split)
  have keep: "status (snd (fst ?t)) = succeeded" "error (snd (fst ?t)) = None"
    using stepTry_keeps[of step options newStepResult] by (simp_all add: newStepResult_def)
  have "case onStep step of
          Some e \<Rightarrow> status data = failed \<and> error data = Some e
        | None \<Rightarrow>
            (case stepCallback step of
               Some e \<Rightarrow> status data = failed \<and> error data = Some e
             | None \<Rightarrow>
                 (if optMetrics options then
                    (case getMetrics step of
                       Inl e \<Rightarrow> status data = failed \<and> error data = Some e
                     | Inr m \<Rightarrow> status data = succeeded \<and> error data = None)
                  else status data = succeeded \<and> error data = None))"
    using k keep by (simp add: thrown split: option.split sum.split)
  with f show "\<exists>data. fst (runStep step context options) = Inr data \<and>
       (case onStep step of
          Some e \<Rightarrow> status data = failed \<and> error data = Some e
        | None \<Rightarrow>
            (case stepCallback step of
               Some e \<Rightarrow> status data = failed \<and> error data = Some e
             | None \<Rightarrow>
                 (if optMetrics options then
                    (case getMetrics step of
                       Inl e \<Rightarrow> status data = failed \<and> error data = Some e
                     | Inr m \<Rightarrow> status data = succeeded \<and> error data = None)
                  else status data = succeeded \<and> error data = None)))"
    by (auto simp: runStep_unfold)
qed

theorem runStep_catches_witness:
  "fst (runStep (throwingStep ''B'' (JError ''x'')) okContext screenshotOptions) =
     Inr \<lparr>status = failed, error = Some (JError ''x''), url = Some ''about:blank'',
          metrics = None, screenshot = Some ''/9j/''\<rparr>
   \<and> fst (runStep ((okStep ''M'')\<lparr>getMetrics := Inl (JError ''m'')\<rparr>) okContext
            (plainOptions\<lparr>optMetrics := True\<rparr>)) =
     Inr \<lparr>status = failed, error = Some (JError ''m''), url = Some ''about:blank'',
          metrics = None, screenshot = None\<rparr>
   \<and> fst (runStep (screenshotThrows ''A'') okContext screenshotOptions) = Inl (JError ''screenshot'')"
  using runStep_catches [of screenshotOptions "throwingStep ''B'' (JError ''x'')" okContext "JError ''x''"]
    runStep_catches [of "plainOptions\<lparr>optMetrics := True\<rparr>"
      "(okStep ''M'')\<lparr>getMetrics := Inl (JError ''m'')\<rparr>" okContext "JError ''m''"]
    runStep_catches [of screenshotOptions "screenshotThrows ''A''" okContext "JError ''screenshot''"]
  by (simp add: sample_defs screenshotOptions_def screenshotThrows_def runner_defs)

text \<open>
  The claim as it was stated fails for the screenshot: it is taken in the \<open>finally\<close>
  block, and what it throws leaves \<open>runStep\<close>.
\<close>

theorem runStep_catches_counterexample:
  "runStep (screenshotThrows ''A'') okContext screenshotOptions =
     (Inl (JError ''screenshot''),
      [Call (OnStep (screenshotThrows ''A'')), Call (StepCallback (screenshotThrows ''A'')),
       Call WaitForLoadState, Call Screenshot])"
  by (simp add: sample_defs screenshotOptions_def screenshotThrows_def runner_defs)

subsection \<open>The events of a journey\<close>

lemma runSteps_events:
  assumes "runSteps journey context options = (Inr srs, fx)"
  shows "length srs = length (steps journey) \<and>
         events fx = concat (map2 (stepEvents journey) (steps journey) srs)"
  using stepLoop_events[OF assms[unfolded runSteps_def]] by auto

text \<open>
  Claim C6, as amended. When the context of a journey was created, registration and the
  before hooks did not throw, the step loop returned and the plugin manager's output did not
  throw, the events emitted while the journey runs are exactly: \<open>journey:start\<close>, then for
  each step in order its \<open>step:start\<close> and its \<open>step:end\<close> (also for a skipped step),
  then \<open>journey:end\<close>. In the loop of \<open>run\<close> these events stand together: the events of
  the loop are those of the journey followed by those of the remaining journeys.
\<close>

theorem journey_event_sequence:
  assumes ctx: "createContext options (gatherer journey) = (Inr context, fx0)"
    and reg: "journeyCallback journey = None"
    and before: "firstRejection (hooksBefore journey) = None"
    and steps: "runSteps journey context options = (Inr srs, fx3)"
    and out: "pmOutput (pluginManager context) = Inr out"
  shows "length srs = length (steps journey)
     \<and> (\<exists>payload. events (snd (snd (runJourney journey options r))) =
           JourneyStart journey (params context)
           # concat (map2 (stepEvents journey) (steps journey) srs)
           @ [JourneyEnd journey payload])
     \<and> (selected options journey \<longrightarrow>
          events (snd (snd (journeyLoop options (journey # rest) result r))) =
            events (snd (snd (runJourney journey options r)))
            @ (case fst (runJourney journey options r) of
                 Inl e \<Rightarrow> []
               | Inr journeyResult \<Rightarrow>
                   events (snd (snd (journeyLoop options rest
                     (AList.update (journeyName journey) journeyResult result)
                     (r\<lparr>currentJourney := Some journey\<rparr>)))))) "
proof -
  note se = runSteps_events[OF steps]
  have f0: "events fx0 = []" using createContext_fx[of options "gatherer journey"] ctx by simp
  have ev: "events (snd (snd (runJourney journey options r))) =
           JourneyStart journey (params context)
           # concat (map2 (stepEvents journey) (steps journey) srs)
           @ [JourneyEnd journey
              \<lparr>endStatus = status (fst (journeyTryCatch journey context options r)),
               endError = error (fst (journeyTryCatch journey context options r)),
               endParams = params context,
               endFilmstrips = filmstrips out, endNetworkinfo = networkinfo out,
               endBrowserconsole =
                 (if status (fst (journeyTryCatch journey context options r)) = failed
                  then Some (browserconsole out) else None)\<rparr>]"
    using reg before steps out se f0
    by (simp add: runJourney_unfold[OF ctx] journeyTry_unfold journeyFinally_unfold
        events_append events_hooks)
  have r1: "fst (snd (runJourney journey options r)) = r\<lparr>currentJourney := Some journey\<rparr>"
    by (simp add: runJourney_unfold[OF ctx])
  have loop: "selected options journey \<longrightarrow>
          events (snd (snd (journeyLoop options (journey # rest) result r))) =
            events (snd (snd (runJourney journey options r)))
            @ (case fst (runJourney journey options r) of
                 Inl e \<Rightarrow> []
               | Inr journeyResult \<Rightarrow>
                   events (snd (snd (journeyLoop options rest
                     (AList.update (journeyName journey) journeyResult result)
                     (r\<lparr>currentJourney := Some journey\<rparr>)))))"
  proof
    assume sel: "selected options journey"
    show "events (snd (snd (journeyLoop options (journey # rest) result r))) =
            events (snd (snd (runJourney journey options r)))
            @ (case fst (runJourney journey options r) of
                 Inl e \<Rightarrow> []
               | Inr journeyResult \<Rightarrow>
                   events (snd (snd (journeyLoop options rest
                     (AList.update (journeyName journey) journeyResult result)
                     (r\<lparr>currentJourney := Some journey\<rparr>)))))"
      by (simp add: journeyLoop_selected[OF sel] r1 events_append split: sum.split
          del: journeyLoop.simps)
  qed
  from se ev loop show ?thesis by blast
qed

theorem journey_event_sequence_witness:
  "createContext plainOptions (gatherer journeyABC) =
      (Inr okContext, [Call SetupDriver, Call (BeginRecording okDriver)])
   \<and> journeyCallback journeyABC = None
   \<and> firstRejection (hooksBefore journeyABC) = None
   \<and> map status (resultsOf (runSteps journeyABC okContext plainOptions)) =
       [succeeded, failed, skipped]
   \<and> map eventName (events (snd (snd (runJourney journeyABC plainOptions (idleRunner [journeyABC]))))) =
       [''journey:start'', ''step:start'', ''step:end'', ''step:start'', ''step:end'',
        ''step:start'', ''step:end'', ''journey:end'']
   \<and> map eventName (events (snd (snd (journeyLoop plainOptions [journeyABC, journeyABC] []
          (idleRunner [journeyABC, journeyABC]))))) =
       [''journey:start'', ''step:start'', ''step:end'', ''step:start'', ''step:end'',
        ''step:start'', ''step:end'', ''journey:end'',
        ''journey:start'', ''step:start'', ''step:end'', ''step:start'', ''step:end'',
        ''step:start'', ''step:end'', ''journey:end'']"
  using journey_event_sequence [of plainOptions journeyABC okContext
      "[Call SetupDriver, Call (BeginRecording okDriver)]"
      "resultsOf (runSteps journeyABC okContext plainOptions)"
      "snd (runSteps journeyABC okContext plainOptions)"
      "\<lparr>filmstrips = [], networkinfo = [], browserconsole = []\<rparr>"
      "idleRunner [journeyABC]" "[journeyABC]" "[]"]
  by (simp add: sample_defs resultsOf_def selected_def runner_defs)

text \<open>
  The claim as it was stated fails when a before hook or the registration callback throws
  (no step event for the three steps), when a screenshot throws (a \<open>step:start\<close> without
  its \<open>step:end\<close>), when the plugin manager's output throws (no \<open>journey:end\<close>) and when
  the driver cannot be set up (no event).
\<close>

theorem journey_event_sequence_counterexample:
  "length (steps journeyBeforeThrows) = 3
   \<and> map eventName (events (snd (snd (runJourney journeyBeforeThrows plainOptions (idleRunner []))))) =
       [''journey:start'', ''journey:end'']
   \<and> length (steps journeyCallbackThrows) = 3
   \<and> map eventName (events (snd (snd (runJourney journeyCallbackThrows plainOptions (idleRunner []))))) =
       [''journey:start'', ''journey:end'']
   \<and> map eventName
        (events (snd (snd (runJourney journeyScreenshotThrows screenshotOptions (idleRunner []))))) =
       [''journey:start'', ''step:start'', ''journey:end'']
   \<and> map eventName (events (snd (snd (runJourney journeyOutputThrows plainOptions (idleRunner []))))) =
       [''journey:start'', ''step:start'', ''step:end'', ''step:start'', ''step:end'',
        ''step:start'', ''step:end'']
   \<and> map eventName (events (snd (snd (runJourney journeySetupThrows plainOptions (idleRunner []))))) = []"
  by (simp add: sample_defs journeyBeforeThrows_def journeyCallbackThrows_def
      journeyScreenshotThrows_def screenshotThrows_def screenshotOptions_def journeyOutputThrows_def
      journeySetupThrows_def runner_defs)

subsection \<open>Dry runs\<close>

lemma journeyLoop_dry:
  "dryRun options \<Longrightarrow>
   journeyLoop options js result r = (Inr result, r, map (\<lambda>j. Emit (JourneyRegister j)) js)"
  by (induction js) simp_all

text \<open>
  Claim C7, as amended. A run with the \<open>dryRun\<close> option that starts on an idle runner and
  whose \<open>beforeAll\<close> and \<open>afterAll\<close> hooks do not throw returns the empty result mapping,
  and its effects are exactly: the reporter, \<open>start\<close>, the \<open>beforeAll\<close> hooks, one
  \<open>journey:register\<close> for each registered journey in order, the \<open>afterAll\<close> hooks, \<open>end\<close>.
  So no \<open>step:start\<close>, \<open>step:end\<close>, \<open>journey:start\<close> or \<open>journey:end\<close> is emitted, no
  driver is set up and no journey is executed.
\<close>

theorem dry_run:
  assumes "\<not> active r" and "dryRun options"
    and "firstRejection (beforeAll (hooks r)) = None"
    and "firstRejection (afterAll (hooks r)) = None"
  shows "run options r =
     (Inr [], reset (r\<lparr>active := True\<rparr>),
      [Call (NewReporter (reporter options) (outfd options)), Emit (Start (length (journeys r)))]
      @ map (\<lambda>cb. Call (Hook cb)) (beforeAll (hooks r))
      @ map (\<lambda>j. Emit (JourneyRegister j)) (journeys r)
      @ map (\<lambda>cb. Call (Hook cb)) (afterAll (hooks r))
      @ [Emit End])"
  using assms
  by (simp add: run_def runBeforeAllHook_def runAfterAllHook_def runParallel_def Let_def
      journeyLoop_dry)

theorem dry_run_witness:
  "\<not> active (idleRunner [journeyABC, journeyFalsy]) \<and> dryRun dryOptions
   \<and> firstRejection (beforeAll (hooks (idleRunner [journeyABC, journeyFalsy]))) = None
   \<and> firstRejection (afterAll (hooks (idleRunner [journeyABC, journeyFalsy]))) = None
   \<and> run dryOptions (idleRunner [journeyABC, journeyFalsy]) =
       (Inr [], idleRunner [],
        [Call (NewReporter ReporterDefault None), Emit (Start 2),
         Emit (JourneyRegister journeyABC), Emit (JourneyRegister journeyFalsy), Emit End])"
  using dry_run [of "idleRunner [journeyABC, journeyFalsy]" dryOptions]
  by (simp add: idleRunner_def dryOptions_def plainOptions_def reset_def)

text \<open>
  The claim as it was stated fails when a \<open>beforeAll\<close> hook throws (no
  \<open>journey:register\<close> is emitted and \<open>run\<close> returns no mapping), when an \<open>afterAll\<close> hook
  throws (\<open>run\<close> returns no mapping), and when the runner is already active (nothing is
  emitted).
\<close>

theorem dry_run_counterexample:
  "run dryOptions (beforeAllThrows [journeyABC]) =
     (Inl (JError ''beforeAll''), (beforeAllThrows [journeyABC])\<lparr>active := True\<rparr>,
      [Call (NewReporter ReporterDefault None), Emit (Start 1),
       Call (Hook (throwingHook (JError ''beforeAll'')))])
   \<and> run dryOptions (afterAllThrows [journeyABC]) =
     (Inl (JError ''afterAll''), (afterAllThrows [journeyABC])\<lparr>active := True\<rparr>,
      [Call (NewReporter ReporterDefault None), Emit (Start 1), Emit (JourneyRegister journeyABC),
       Call (Hook (throwingHook (JError ''afterAll'')))])
   \<and> run dryOptions ((idleRunner [journeyABC])\<lparr>active := True\<rparr>) =
     (Inr [], (idleRunner [journeyABC])\<lparr>active := True\<rparr>, [])"
  by (simp add: run_def runBeforeAllHook_def runAfterAllHook_def runParallel_def Let_def
      journeyLoop_dry beforeAllThrows_def afterAllThrows_def idleRunner_def dryOptions_def
      plainOptions_def throwingHook_def)

subsection \<open>The after hooks\<close>

lemma journeyFinally_hooksRun:
  "hooksRun (snd (journeyFinally journey context result)) = []"
  by (simp add: journeyFinally_unfold split: sum.split)

lemma runJourney_hooksRun:
  "hooksRun (snd (snd (runJourney journey options r))) =
     (case fst (createContext options (gatherer journey)) of
        Inl e \<Rightarrow> []
      | Inr c \<Rightarrow>
          (case journeyCallback journey of
             Some e \<Rightarrow> []
           | None \<Rightarrow>
               (case firstRejection (hooksBefore journey) of
                  Some e \<Rightarrow> hooksBefore journey
                | None \<Rightarrow>
                    (case fst (runSteps journey c options) of
                       Inl e \<Rightarrow> hooksBefore journey
                     | Inr srs \<Rightarrow> hooksBefore journey @ hooksAfter journey))))"
proof (cases "fst (createContext options (gatherer journey))")
  case (Inl e)
  then have "createContext options (gatherer journey) =
      (Inl e, snd (createContext options (gatherer journey)))"
    by (simp add: prod_eq_iff)
  then show ?thesis
    using createContext_fx[of options "gatherer journey"] Inl by (simp add: runJourney_no_context)
next
  case (Inr c)
  then have c: "createContext options (gatherer journey) =
      (Inr c, snd (createContext options (gatherer journey)))"
    by (simp add: prod_eq_iff)
  show ?thesis
    using createContext_fx[of options "gatherer journey"] Inr
    by (simp add: runJourney_unfold[OF c] journeyTry_unfold journeyFinally_hooksRun
        hooksRun_append hooksRun_hooks runSteps_fx split: option.split sum.split)
qed

text \<open>
  Claim C8, as amended. The hooks run while \<open>runJourney\<close> runs a journey are: none when
  the context cannot be created or the registration callback throws; the before hooks only
  when a before hook or the step loop throws; the before hooks and then the after hooks when
  registration, the before hooks and the step loop complete, whatever the statuses of the
  step results. In that last case the after hooks are invoked right after the effects of the
  step loop, and nothing after them invokes a hook or a step. When the registration callback,
  a before hook or the step loop threw \<open>e\<close> and the plugin manager's output does not throw,
  the last event of the journey is \<open>journey:end\<close> with the status \<open>failed\<close> and the error
  \<open>e\<close>; when the driver's disposal does not throw either, \<open>runJourney\<close> returns the
  status \<open>failed\<close> with the error \<open>e\<close>.
\<close>

theorem after_hooks:
  "hooksRun (snd (snd (runJourney journey options r))) =
     (case fst (createContext options (gatherer journey)) of
        Inl e \<Rightarrow> []
      | Inr c \<Rightarrow>
          (case journeyCallback journey of
             Some e \<Rightarrow> []
           | None \<Rightarrow>
               (case firstRejection (hooksBefore journey) of
                  Some e \<Rightarrow> hooksBefore journey
                | None \<Rightarrow>
                    (case fst (runSteps journey c options) of
                       Inl e \<Rightarrow> hooksBefore journey
                     | Inr srs \<Rightarrow> hooksBefore journey @ hooksAfter journey))))
   \<and> (createContext options (gatherer journey) = (Inr context, fx0)
        \<and> journeyCallback journey = None \<and> firstRejection (hooksBefore journey) = None
        \<and> fst (runSteps journey context options) = Inr srs \<longrightarrow>
       (\<exists>fin. snd (snd (runJourney journey options r)) =
          fx0 @ [Emit (JourneyStart journey (params context)), Call (JourneyCallback journey)]
          @ map (\<lambda>cb. Call (Hook cb)) (hooksBefore journey)
          @ snd (runSteps journey context options)
          @ map (\<lambda>cb. Call (Hook cb)) (hooksAfter journey)
          @ fin
          \<and> hooksRun fin = [] \<and> executed fin = []))
   \<and> (createContext options (gatherer journey) = (Inr context, fx0)
        \<and> (journeyCallback journey = Some e
            \<or> journeyCallback journey = None \<and> firstRejection (hooksBefore journey) = Some e
            \<or> journeyCallback journey = None \<and> firstRejection (hooksBefore journey) = None
               \<and> fst (runSteps journey context options) = Inl e)
        \<and> pmOutput (pluginManager context) = Inr out \<longrightarrow>
       (\<exists>evs. events (snd (snd (runJourney journey options r))) =
          evs @ [JourneyEnd journey
                   \<lparr>endStatus = failed, endError = Some e, endParams = params context,
                    endFilmstrips = filmstrips out, endNetworkinfo = networkinfo out,
                    endBrowserconsole = Some (browserconsole out)\<rparr>])
       \<and> (dispose (driver context) = None \<longrightarrow>
            fst (runJourney journey options r) = Inr \<lparr>status = failed, error = Some e\<rparr>))"
proof (intro conjI impI)
  show "hooksRun (snd (snd (runJourney journey options r))) =
     (case fst (createContext options (gatherer journey)) of
        Inl e \<Rightarrow> []
      | Inr c \<Rightarrow>
          (case journeyCallback journey of
             Some e \<Rightarrow> []
           | None \<Rightarrow>
               (case firstRejection (hooksBefore journey) of
                  Some e \<Rightarrow> hooksBefore journey
                | None \<Rightarrow>
                    (case fst (runSteps journey c options) of
                       Inl e \<Rightarrow> hooksBefore journey
                     | Inr srs \<Rightarrow> hooksBefore journey @ hooksAfter journey))))"
    by (rule runJourney_hooksRun)
next
  assume h: "createContext options (gatherer journey) = (Inr context, fx0)
        \<and> journeyCallback journey = None \<and> firstRejection (hooksBefore journey) = None
        \<and> fst (runSteps journey context options) = Inr srs"
  then have c: "createContext options (gatherer journey) = (Inr context, fx0)" by simp
  let ?fin = "snd (journeyFinally journey context (fst (journeyTryCatch journey context options r)))"
  have "snd (snd (runJourney journey options r)) =
          fx0 @ [Emit (JourneyStart journey (params context)), Call (JourneyCallback journey)]
          @ map (\<lambda>cb. Call (Hook cb)) (hooksBefore journey)
          @ snd (runSteps journey context options)
          @ map (\<lambda>cb. Call (Hook cb)) (hooksAfter journey)
          @ ?fin"
    using h by (simp add: runJourney_unfold[OF c] journeyTry_unfold)
  moreover have "hooksRun ?fin = []" by (rule journeyFinally_hooksRun)
  moreover have "executed ?fin = []" by (simp add: journeyFinally_unfold split: sum.split)
  ultimately show "\<exists>fin. snd (snd (runJourney journey options r)) =
          fx0 @ [Emit (JourneyStart journey (params context)), Call (JourneyCallback journey)]
          @ map (\<lambda>cb. Call (Hook cb)) (hooksBefore journey)
          @ snd (runSteps journey context options)
          @ map (\<lambda>cb. Call (Hook cb)) (hooksAfter journey)
          @ fin
          \<and> hooksRun fin = [] \<and> executed fin = []"
    by blast
next
  assume h: "createContext options (gatherer journey) = (Inr context, fx0)
        \<and> (journeyCallback journey = Some e
            \<or> journeyCallback journey = None \<and> firstRejection (hooksBefore journey) = Some e
            \<or> journeyCallback journey = None \<and> firstRejection (hooksBefore journey) = None
               \<and> fst (runSteps journey context options) = Inl e)
        \<and> pmOutput (pluginManager context) = Inr out"
  then have c: "createContext options (gatherer journey) = (Inr context, fx0)" by simp
  from h have t: "fst (journeyTry journey context options r) = Inl e"
    by (auto simp: journeyTry_unfold)
  let ?end = "JourneyEnd journey
                   \<lparr>endStatus = failed, endError = Some e, endParams = params context,
                    endFilmstrips = filmstrips out, endNetworkinfo = networkinfo out,
                    endBrowserconsole = Some (browserconsole out)\<rparr>"
  have "events (snd (snd (runJourney journey options r))) =
          (events fx0 @ events (snd (snd (journeyTry journey context options r)))) @ [?end]"
    using h t
    by (simp add: runJourney_unfold[OF c] journeyTryCatch_unfold journeyFinally_unfold
        events_append)
  then show "\<exists>evs. events (snd (snd (runJourney journey options r))) = evs @ [?end]"
    by blast
  show "fst (runJourney journey options r) = Inr \<lparr>status = failed, error = Some e\<rparr>"
    if "dispose (driver context) = None"
    using h t that
    by (simp add: runJourney_unfold[OF c] journeyTryCatch_unfold journeyFinally_unfold)
qed

theorem after_hooks_witness:
  "createContext plainOptions (gatherer journeyHooked) =
      (Inr okContext, [Call SetupDriver, Call (BeginRecording okDriver)])
   \<and> journeyCallback journeyHooked = None \<and> firstRejection (hooksBefore journeyHooked) = None
   \<and> map status (resultsOf (runSteps journeyHooked okContext plainOptions)) =
       [succeeded, failed, skipped]
   \<and> hooksRun (snd (snd (runJourney journeyHooked plainOptions (idleRunner [])))) =
       [quietHook 1, quietHook 2]
   \<and> hooksRun (snd (snd (runJourney (journeyHooked\<lparr>journeyCallback := Some (JError ''register'')\<rparr>)
         plainOptions (idleRunner [])))) = []
   \<and> fst (runJourney (journeyHooked\<lparr>journeyCallback := Some (JError ''register'')\<rparr>)
         plainOptions (idleRunner [])) =
       Inr \<lparr>status = failed, error = Some (JError ''register'')\<rparr>
   \<and> hooksRun (snd (snd (runJourney
         (journeyHooked\<lparr>hooksBefore := [throwingHook (JError ''before'')]\<rparr>)
         plainOptions (idleRunner [])))) = [throwingHook (JError ''before'')]
   \<and> fst (runJourney (journeyHooked\<lparr>hooksBefore := [throwingHook (JError ''before'')]\<rparr>)
         plainOptions (idleRunner [])) =
       Inr \<lparr>status = failed, error = Some (JError ''before'')\<rparr>
   \<and> hooksRun (snd (snd (runJourney (journeyHooked\<lparr>steps := [screenshotThrows ''A'']\<rparr>)
         screenshotOptions (idleRunner [])))) = [quietHook 1]
   \<and> fst (runJourney (journeyHooked\<lparr>steps := [screenshotThrows ''A'']\<rparr>)
         screenshotOptions (idleRunner [])) =
       Inr \<lparr>status = failed, error = Some (JError ''screenshot'')\<rparr>"
  using after_hooks [of journeyHooked plainOptions "idleRunner []" okContext
      "[Call SetupDriver, Call (BeginRecording okDriver)]"
      "resultsOf (runSteps journeyHooked okContext plainOptions)" "JError ''x''"
      "\<lparr>filmstrips = [], networkinfo = [], browserconsole = []\<rparr>"]
    after_hooks [of "journeyHooked\<lparr>journeyCallback := Some (JError ''register'')\<rparr>" plainOptions
      "idleRunner []" okContext "[Call SetupDriver, Call (BeginRecording okDriver)]" "[]"
      "JError ''register''" "\<lparr>filmstrips = [], networkinfo = [], browserconsole = []\<rparr>"]
    after_hooks [of "journeyHooked\<lparr>hooksBefore := [throwingHook (JError ''before'')]\<rparr>"
      plainOptions "idleRunner []" okContext "[Call SetupDriver, Call (BeginRecording okDriver)]"
      "[]" "JError ''before''" "\<lparr>filmstrips = [], networkinfo = [], browserconsole = []\<rparr>"]
    after_hooks [of "journeyHooked\<lparr>steps := [screenshotThrows ''A'']\<rparr>" screenshotOptions
      "idleRunner []" okContext "[Call SetupDriver, Call (BeginRecording okDriver)]" "[]"
      "JError ''screenshot''" "\<lparr>filmstrips = [], networkinfo = [], browserconsole = []\<rparr>"]
  by (simp add: sample_defs journeyHooked_def quietHook_def resultsOf_def
      screenshotThrows_def screenshotOptions_def runner_defs)

text \<open>
  The claim as it was stated fails in its last part. When the registration callback throws
  and the plugin manager's output then throws in the \<open>finally\<close> block, \<open>runJourney\<close> throws
  the second exception and emits no \<open>journey:end\<close>: the first one is the error of nothing.
  When the driver's disposal throws, \<open>runJourney\<close> returns no result either.
\<close>

theorem after_hooks_counterexample:
  "journeyCallback (journeyHooked\<lparr>journeyCallback := Some (JError ''register''),
                                  gatherer := gatherer journeyOutputThrows\<rparr>) =
     Some (JError ''register'')
   \<and> fst (runJourney (journeyHooked\<lparr>journeyCallback := Some (JError ''register''),
                                     gatherer := gatherer journeyOutputThrows\<rparr>)
            plainOptions (idleRunner [])) = Inl (JError ''output'')
   \<and> map eventName (events (snd (snd (runJourney
        (journeyHooked\<lparr>journeyCallback := Some (JError ''register''),
                        gatherer := gatherer journeyOutputThrows\<rparr>)
        plainOptions (idleRunner []))))) = [''journey:start'']
   \<and> fst (runJourney (journeyHooked\<lparr>journeyCallback := Some (JError ''register''),
                                     gatherer := gatherer journeyDisposeThrows\<rparr>)
            plainOptions (idleRunner [])) = Inl (JError ''dispose'')"
  by (simp add: sample_defs journeyHooked_def quietHook_def journeyOutputThrows_def
      journeyDisposeThrows_def runner_defs)

subsection \<open>A run that a hook aborts\<close>

lemma runJourney_keeps:
  "active (fst (snd (runJourney journey options r))) = active r \<and>
   journeys (fst (snd (runJourney journey options r))) = journeys r \<and>
   hooks (fst (snd (runJourney journey options r))) = hooks r"
  using runJourney_runner[of journey options r] by auto

lemma journeyLoop_keeps:
  "active (fst (snd (journeyLoop options js result r))) = active r \<and>
   journeys (fst (snd (journeyLoop options js result r))) = journeys r \<and>
   hooks (fst (snd (journeyLoop options js result r))) = hooks r"
proof (induction js arbitrary: result r)
  case Nil
  show ?case by simp
next
  case (Cons j js)
  show ?case
    using runJourney_keeps[of j options r]
    by (simp add: Cons.IH case_prod_beta split: sum.split)
qed

lemma stepLoop_no_end:
  "End \<notin> set (events (snd (stepLoop journey context options skipStep ss results)))"
proof (induction ss arbitrary: skipStep results)
  case Nil
  show ?case by simp
next
  case (Cons step rest)
  show ?case
    by (simp add: stepLoop_unfold stepTurn_events stepEvents_def Cons.IH events_append
        split: sum.split prod.split del: stepLoop.simps)
qed

lemma runJourney_no_end:
  "End \<notin> set (events (snd (snd (runJourney journey options r))))"
proof (cases "fst (createContext options (gatherer journey))")
  case (Inl e)
  then have "createContext options (gatherer journey) =
      (Inl e, snd (createContext options (gatherer journey)))"
    by (simp add: prod_eq_iff)
  then show ?thesis
    using createContext_fx[of options "gatherer journey"] by (simp add: runJourney_no_context)
next
  case (Inr c)
  then have c: "createContext options (gatherer journey) =
      (Inr c, snd (createContext options (gatherer journey)))"
    by (simp add: prod_eq_iff)
  have t: "End \<notin> set (events (snd (snd (journeyTry journey c options r))))"
    using stepLoop_no_end[of journey c options False "steps journey" "[]"]
    by (simp add: journeyTry_unfold events_append events_hooks runSteps_def
        split: option.split sum.split)
  show ?thesis
    using createContext_fx[of options "gatherer journey"] t
    by (simp add: runJourney_unfold[OF c] journeyFinally_unfold events_append split: sum.split)
qed

lemma journeyLoop_no_end:
  "End \<notin> set (events (snd (snd (journeyLoop options js result r))))"
proof (induction js arbitrary: result r)
  case Nil
  show ?case by simp
next
  case (Cons j js)
  show ?case
    using runJourney_no_end[of j options r]
    by (simp add: Cons.IH case_prod_beta events_append split: sum.split)
qed

text \<open>
  Claim C10. When a run starts on an idle runner and a \<open>beforeAll\<close> hook throws \<open>e\<close>, or
  the \<open>beforeAll\<close> hooks complete, the loop over the journeys returns and an \<open>afterAll\<close>
  hook throws \<open>e\<close>, then \<open>run\<close> throws \<open>e\<close>; the runner it leaves behind has its
  \<open>active\<close> flag set and its journey list as before; no \<open>end\<close> event was emitted; and any
  later call of \<open>run\<close> on that runner returns the empty mapping, does nothing and leaves the
  runner as it is (so the same holds for every call after it).
\<close>

theorem run_hook_throws:
  assumes idle: "\<not> active r"
    and thrown: "firstRejection (beforeAll (hooks r)) = Some e \<or>
       (firstRejection (beforeAll (hooks r)) = None
        \<and> (\<exists>result. fst (journeyLoop options (journeys r) [] (r\<lparr>active := True\<rparr>)) = Inr result)
        \<and> firstRejection (afterAll (hooks r)) = Some e)"
  shows "fst (run options r) = Inl e
     \<and> active (fst (snd (run options r)))
     \<and> journeys (fst (snd (run options r))) = journeys r
     \<and> End \<notin> set (events (snd (snd (run options r))))
     \<and> run options1 (fst (snd (run options r))) = (Inr [], fst (snd (run options r)), [])"
proof -
  let ?r1 = "r\<lparr>active := True\<rparr>"
  let ?l = "journeyLoop options (journeys r) [] ?r1"
  note keeps = journeyLoop_keeps[of options "journeys r" "[]" ?r1]
  note noend = journeyLoop_no_end[of options "journeys r" "[]" ?r1]
  have a: "fst (run options r) = Inl e
     \<and> active (fst (snd (run options r)))
     \<and> journeys (fst (snd (run options r))) = journeys r
     \<and> End \<notin> set (events (snd (snd (run options r))))"
    using thrown
  proof
    assume "firstRejection (beforeAll (hooks r)) = Some e"
    then show ?thesis
      using idle
      by (simp add: run_def runBeforeAllHook_def runParallel_def Let_def events_append events_hooks)
  next
    assume h: "firstRejection (beforeAll (hooks r)) = None
        \<and> (\<exists>result. fst ?l = Inr result)
        \<and> firstRejection (afterAll (hooks r)) = Some e"
    then obtain result where l: "fst ?l = Inr result" by blast
    show ?thesis
      using idle h l keeps noend
      by (simp add: run_def runBeforeAllHook_def runAfterAllHook_def runParallel_def Let_def
          case_prod_beta events_append events_hooks)
  qed
  then have "active (fst (snd (run options r)))" by simp
  then have "run options1 (fst (snd (run options r))) = (Inr [], fst (snd (run options r)), [])"
    by (simp add: run_def)
  with a show ?thesis by simp
qed

theorem run_hook_throws_witness:
  "\<not> active (beforeAllThrows [journeyABC])
   \<and> firstRejection (beforeAll (hooks (beforeAllThrows [journeyABC]))) = Some (JError ''beforeAll'')
   \<and> run plainOptions (beforeAllThrows [journeyABC]) =
       (Inl (JError ''beforeAll''), (beforeAllThrows [journeyABC])\<lparr>active := True\<rparr>,
        [Call (NewReporter ReporterDefault None), Emit (Start 1),
         Call (Hook (throwingHook (JError ''beforeAll'')))])
   \<and> run dryOptions ((beforeAllThrows [journeyABC])\<lparr>active := True\<rparr>) =
       (Inr [], (beforeAllThrows [journeyABC])\<lparr>active := True\<rparr>, [])
   \<and> \<not> active (afterAllThrows [journeyABC])
   \<and> firstRejection (afterAll (hooks (afterAllThrows [journeyABC]))) = Some (JError ''afterAll'')
   \<and> fst (run plainOptions (afterAllThrows [journeyABC])) = Inl (JError ''afterAll'')
   \<and> fst (snd (run plainOptions (afterAllThrows [journeyABC]))) =
       (afterAllThrows [journeyABC])\<lparr>active := True, currentJourney := Some journeyABC\<rparr>
   \<and> map eventName (events (snd (snd (run plainOptions (afterAllThrows [journeyABC]))))) =
       [''start'', ''journey:start'', ''step:start'', ''step:end'', ''step:start'', ''step:end'',
        ''step:start'', ''step:end'', ''journey:end'']"
  using run_hook_throws [of "beforeAllThrows [journeyABC]" "JError ''beforeAll''" plainOptions dryOptions]
    run_hook_throws [of "afterAllThrows [journeyABC]" "JError ''afterAll''" plainOptions dryOptions]
  by (simp add: sample_defs beforeAllThrows_def afterAllThrows_def dryOptions_def runner_defs run_def
      runBeforeAllHook_def runAfterAllHook_def)

subsection \<open>The URL of a step\<close>

text \<open>
  What \<open>runStep\<close> reports as the URL: the URL of the first request of the step when that
  request is a navigation request, the URL of the page in every other case.
\<close>

lemma deliver_detached: "deliver False reqs data = data"
  by (induction reqs) simp_all

lemma deliver_first:
  "deliver True reqs data = (case reqs of [] \<Rightarrow> data | req # rest \<Rightarrow> captureUrl req data)"
  by (cases reqs) (simp_all add: deliver_detached)

lemma stepTry_url:
  "url (snd (fst (stepTry step options newStepResult))) =
     (case onStep step of
        Some e \<Rightarrow> None
      | None \<Rightarrow>
          (case requests step of
             [] \<Rightarrow> None
           | req # rest \<Rightarrow> if isNavigationRequest req then Some (requestUrl req) else None))"
  by (simp add: stepTry_def Let_def deliver_first captureUrl_def newStepResult_def
      split: option.split sum.split list.split)

lemma stepFinally_url:
  "stepFinally step options d = (Inr d', fx) \<Longrightarrow>
   url d' = (case url d of None \<Rightarrow> Some (pageUrl step) | Some u \<Rightarrow> Some u)"
  by (auto simp: stepFinally_def Let_def split: option.splits sum.splits if_splits)

lemma runStep_url:
  assumes "fst (runStep step context options) = Inr data"
  shows "url data =
     (case onStep step of
        Some e \<Rightarrow> Some (pageUrl step)
      | None \<Rightarrow>
          (case requests step of
             [] \<Rightarrow> Some (pageUrl step)
           | req # rest \<Rightarrow>
               if isNavigationRequest req then Some (requestUrl req) else Some (pageUrl step)))"
proof -
  let ?t = "stepTry step options newStepResult"
  let ?d = "case fst (fst ?t) of Some e \<Rightarrow> (snd (fst ?t))\<lparr>status := failed, error := Some e\<rparr>
            | None \<Rightarrow> snd (fst ?t)"
  from assms have "stepFinally step options ?d = (Inr data, snd (stepFinally step options ?d))"
    by (simp add: runStep_unfold prod_eq_iff)
  from stepFinally_url[OF this] have "url data = (case url ?d of None \<Rightarrow> Some (pageUrl step) | Some u \<Rightarrow> Some u)" .
  moreover have "url ?d = url (snd (fst ?t))" by (simp split: option.split)
  ultimately show ?thesis
    by (simp add: stepTry_url split: option.split list.split)
qed

text \<open>
  Claim C9 at the step \<open>clickStep\<close>: the first request of the step is not a navigation
  request, so the listener leaves \<open>data\<close> as it is and detaches; the navigation request
  that follows has no listener, and the result carries the URL of the page,
  \<open>about:blank\<close>, not the URL of the first navigation request.
\<close>

theorem click_step_url:
  "deliver True (requests clickStep) newStepResult = newStepResult
   \<and> fst (runStep clickStep okContext plainOptions) =
     Inr \<lparr>status = failed, error = Some (JError ''net::ERR_CONNECTION_REFUSED''),
          url = Some ''about:blank'', metrics = None, screenshot = None\<rparr>"
  by (simp add: sample_defs clickStep_def runner_defs captureUrl_def)

end
